theory Spec2Isabelle
  imports Main
begin

section \<open>Token rows and the token store\<close>

text \<open>
  The development follows \<^verbatim>\<open>src/modules/token/token.service.ts\<close>: the functions
  that issue, rotate, revoke, list and purge refresh-token rows through Prisma.

  Time is the number of milliseconds since the epoch (\<^verbatim>\<open>Date.getTime()\<close>). A nullable
  column is an \<open>option\<close>. The store is the list of rows of the \<^verbatim>\<open>token\<close> table in the
  order in which the database returns them; \<open>tokenId\<close> is the primary key \<^verbatim>\<open>id\<close>.
\<close>

type_synonym time = int

datatype tokenType = access | refresh

type_synonym metadata_bag = "(string \<times> string) list"

record tokenDoc =
  tokenId :: string
  token :: string
  userId :: string
  type :: tokenType
  deviceId :: "string option"
  deviceName :: "string option"
  userAgent :: "string option"
  ipAddress :: "string option"
  tokenFamily :: "string option"
  replacesTokenId :: "string option"
  rememberMe :: bool
  metadata :: metadata_bag
  isRevoked :: bool
  useCount :: int
  expiresAt :: "time option"
  revokedAt :: "time option"
  revokedReason :: "string option"
  lastUsedAt :: "time option"
  createdAt :: time

type_synonym store = "tokenDoc list"

text \<open>The claims of a verified token that the service reads: \<^verbatim>\<open>sub\<close> and \<^verbatim>\<open>type\<close>.\<close>

record JWTPayload =
  sub :: string
  payload_type :: string

text \<open>
  What a call takes from outside the service: the clock, the codec of
  \<^verbatim>\<open>utils/jwt.ts\<close> (\<open>verifyToken\<close> is \<open>None\<close> where the source throws; \<open>generateToken\<close>
  takes the subject, the kind and the lifetime string), the result of
  \<^verbatim>\<open>crypto.randomBytes(16).toString("hex")\<close>, the id the database gives to a created
  row, \<^verbatim>\<open>strToDate\<close> of \<^verbatim>\<open>utils/date\<close>, and the two lifetime strings of the
  configuration. One call reads the clock at one instant.

  \<open>addDays w n t\<close> is the instant of \<^verbatim>\<open>d.setDate(d.getDate() + n)\<close> for the date \<open>d\<close> at
  \<open>t\<close>: the same wall-clock time \<open>n\<close> calendar days later (earlier for a negative \<open>n\<close>)
  in the time zone of the process. Nothing in the service fixes that zone, so the step
  is a function of the surroundings; it is \<open>t + n * 86400000\<close> only where no clock
  change of the zone falls in between.
\<close>

record ambient =
  now :: time
  addDays :: "int \<Rightarrow> time \<Rightarrow> time"
  verifyToken :: "string \<Rightarrow> JWTPayload option"
  generateToken :: "string \<Rightarrow> tokenType \<Rightarrow> string \<Rightarrow> string"
  randomBytesHex :: string
  createId :: string
  strToDate :: "string \<Rightarrow> time"
  expiryAccessToken :: string
  expiryRefreshToken :: string

text \<open>The session context \<^verbatim>\<open>IToken\<close>, with the fields the service reads from it.\<close>

record IToken =
  opts_userId :: string
  opts_deviceId :: "string option"
  opts_deviceName :: "string option"
  opts_ipAddress :: "string option"
  opts_userAgent :: "string option"
  opts_rememberMe :: "bool option"
  opts_metadata :: "metadata_bag option"

text \<open>The argument object of \<^verbatim>\<open>saveToken\<close>; an absent key is \<open>None\<close>.\<close>

record saveTokenOpts =
  so_userId :: string
  so_token :: string
  so_deviceId :: "string option"
  so_ipAddress :: "string option"
  so_userAgent :: "string option"
  so_deviceName :: "string option"
  so_rememberMe :: "bool option"
  so_tokenFamily :: "string option"
  so_replacesTokenId :: "string option"
  so_type :: "tokenType option"
  so_metadata :: "metadata_bag option"
  so_expiresAt :: "time option"

text \<open>The pair \<^verbatim>\<open>{access: {token, expiresAt}, refresh: {token, expiresAt}}\<close>.\<close>

record authTokens =
  access_token :: string
  access_expiresAt :: time
  refresh_token :: string
  refresh_expiresAt :: time

datatype ApiError = ApiError nat string

section \<open>Issuing a session\<close>

text \<open>\<^verbatim>\<open>saveToken\<close>, lines 30 to 77: destructuring defaults, then \<^verbatim>\<open>prisma.token.create\<close>.\<close>

definition saveToken :: "ambient \<Rightarrow> store \<Rightarrow> saveTokenOpts \<Rightarrow> tokenDoc \<times> store" where
  "saveToken w st so =
     (let row = \<lparr> tokenId = createId w,
                  token = so_token so,
                  userId = so_userId so,
                  type = (case so_type so of None \<Rightarrow> refresh | Some k \<Rightarrow> k),
                  deviceId = so_deviceId so,
                  deviceName = so_deviceName so,
                  userAgent = so_userAgent so,
                  ipAddress = so_ipAddress so,
                  tokenFamily = so_tokenFamily so,
                  replacesTokenId = so_replacesTokenId so,
                  rememberMe = (case so_rememberMe so of None \<Rightarrow> False | Some b \<Rightarrow> b),
                  metadata = (case so_metadata so of None \<Rightarrow> [] | Some m \<Rightarrow> m),
                  isRevoked = False,
                  useCount = 0,
                  expiresAt = Some (case so_expiresAt so of None \<Rightarrow> now w | Some e \<Rightarrow> e),
                  revokedAt = None,
                  revokedReason = None,
                  lastUsedAt = None,
                  createdAt = now w \<rparr>
      in (row, st @ [row]))"

text \<open>\<^verbatim>\<open>generateLoginTokens\<close>, lines 79 to 129.\<close>

definition generateLoginTokens :: "ambient \<Rightarrow> store \<Rightarrow> IToken \<Rightarrow> authTokens \<times> store" where
  "generateLoginTokens w st opts =
     (let accessToken = generateToken w (opts_userId opts) access (expiryAccessToken w);
          refreshToken = generateToken w (opts_userId opts) refresh (expiryRefreshToken w);
          family = randomBytesHex w;
          expirationDays = (if opts_rememberMe opts = Some True then 30 else 7);
          expires = addDays w expirationDays (now w);
          saved = saveToken w st
                    \<lparr> so_userId = opts_userId opts,
                      so_token = refreshToken,
                      so_deviceId = opts_deviceId opts,
                      so_ipAddress = opts_ipAddress opts,
                      so_userAgent = opts_userAgent opts,
                      so_deviceName = opts_deviceName opts,
                      so_rememberMe = opts_rememberMe opts,
                      so_tokenFamily = Some family,
                      so_replacesTokenId = None,
                      so_type = None,
                      so_metadata = opts_metadata opts,
                      so_expiresAt = Some expires \<rparr>
      in (\<lparr> access_token = accessToken,
             access_expiresAt = strToDate w (expiryAccessToken w),
             refresh_token = refreshToken,
             refresh_expiresAt = expires \<rparr>,
          snd saved))"

section \<open>Rotation\<close>

text \<open>The errors \<^verbatim>\<open>refreshAuth\<close> throws, each \<^verbatim>\<open>new ApiError(status.FORBIDDEN, ...)\<close>.\<close>

definition InvalidToken :: ApiError where
  "InvalidToken = ApiError 403 ''Invalid refresh token (signature).''"

definition NotRefreshToken :: ApiError where
  "NotRefreshToken = ApiError 403 ''Token is not a refresh token.''"

definition TokenNotFound :: ApiError where
  "TokenNotFound = ApiError 403 ''Refresh token not found or revoked.''"

definition TokenExpired :: ApiError where
  "TokenExpired = ApiError 403 ''Refresh token expired.''"

definition ReuseDetected :: ApiError where
  "ReuseDetected = ApiError 403 ''Token reuse detected - all sessions revoked for security''"

text \<open>
  The Prisma calls on the table. \<^verbatim>\<open>findFirst\<close> is \<open>find\<close> on the list of rows;
  \<^verbatim>\<open>updateMany\<close> writes the data into every row the \<^verbatim>\<open>where\<close> selects;
  \<^verbatim>\<open>update\<close> and \<^verbatim>\<open>delete\<close> select by primary key.
\<close>

definition updateMany :: "(tokenDoc \<Rightarrow> bool) \<Rightarrow> (tokenDoc \<Rightarrow> tokenDoc) \<Rightarrow> store \<Rightarrow> store" where
  "updateMany wh data st = map (\<lambda>r. if wh r then data r else r) st"

definition updateById :: "string \<Rightarrow> (tokenDoc \<Rightarrow> tokenDoc) \<Rightarrow> store \<Rightarrow> store" where
  "updateById i data st = updateMany (\<lambda>r. tokenId r = i) data st"

definition deleteById :: "string \<Rightarrow> store \<Rightarrow> store" where
  "deleteById i st = filter (\<lambda>r. tokenId r \<noteq> i) st"

text \<open>The \<^verbatim>\<open>where\<close> of line 144: this token value, kind refresh, not revoked.\<close>

definition liveRefresh :: "string \<Rightarrow> tokenDoc \<Rightarrow> bool" where
  "liveRefresh t r = (token r = t \<and> type r = refresh \<and> \<not> isRevoked r)"

text \<open>\<^verbatim>\<open>tokenDoc.expiresAt && tokenDoc.expiresAt.getTime() < Date.now()\<close>, line 155.\<close>

definition expiredAt :: "time \<Rightarrow> tokenDoc \<Rightarrow> bool" where
  "expiredAt t r = (case expiresAt r of None \<Rightarrow> False | Some e \<Rightarrow> e < t)"

text \<open>The data of the three revoking writes and of the rotation write (lines 171, 188).\<close>

definition revokeData :: "time \<Rightarrow> string \<Rightarrow> tokenDoc \<Rightarrow> tokenDoc" where
  "revokeData t reason r = r\<lparr> isRevoked := True, revokedAt := Some t, revokedReason := Some reason \<rparr>"

definition rotatedData :: "time \<Rightarrow> tokenDoc \<Rightarrow> tokenDoc" where
  "rotatedData t r = r\<lparr> lastUsedAt := Some t, useCount := useCount r + 1, isRevoked := True,
                         revokedReason := Some ''Token rotated'' \<rparr>"

text \<open>\<^verbatim>\<open>a ?? b\<close> on nullable strings.\<close>

definition nullish :: "'a option \<Rightarrow> 'a option \<Rightarrow> 'a option" where
  "nullish a b = (case a of None \<Rightarrow> b | Some x \<Rightarrow> Some x)"

text \<open>
  \<^verbatim>\<open>refreshAuth\<close>, lines 131 to 183: verification, lookup, expiry and reuse checks. Every
  failure is a throw; the store returned is the store the throw leaves behind. A family
  that is null or the empty string is falsy at line 168. A token that passes hands the
  payload and the row read at line 143 to the second half.
\<close>

definition refreshAuth_check ::
  "ambient \<Rightarrow> store \<Rightarrow> string \<Rightarrow> (ApiError + JWTPayload \<times> tokenDoc) \<times> store" where
  "refreshAuth_check w st refreshToken =
     (case verifyToken w refreshToken of
        None \<Rightarrow> (Inl InvalidToken, st)
      | Some payload \<Rightarrow>
          if payload_type payload \<noteq> ''refresh'' then (Inl NotRefreshToken, st)
          else
            (case find (liveRefresh refreshToken) st of
               None \<Rightarrow> (Inl TokenNotFound, st)
             | Some doc \<Rightarrow>
                 if expiredAt (now w) doc then (Inl TokenExpired, deleteById (tokenId doc) st)
                 else if useCount doc > 0 then
                   (Inl ReuseDetected,
                    (case tokenFamily doc of
                       None \<Rightarrow> st
                     | Some fam \<Rightarrow>
                         if fam = [] then st
                         else updateMany (\<lambda>r. tokenFamily r = Some fam)
                                (revokeData (now w) ''Token family revoked due to reuse'') st))
                 else (Inr (payload, doc), st)))"

text \<open>
  \<^verbatim>\<open>refreshAuth\<close>, lines 185 to 236: the write that marks the presented row, the two
  new tokens, the new row, the returned pair. The increment acts on the row as the
  store holds it at the time of the write; everything else comes from the row read
  earlier and from the request.
\<close>

definition refreshAuth_rotate ::
  "ambient \<Rightarrow> store \<Rightarrow> JWTPayload \<Rightarrow> tokenDoc \<Rightarrow> IToken option \<Rightarrow> authTokens \<times> store" where
  "refreshAuth_rotate w st payload doc opts =
     (let st1 = updateById (tokenId doc) (rotatedData (now w)) st;
          newAccessToken = generateToken w (sub payload) access (expiryAccessToken w);
          newRefreshToken = generateToken w (sub payload) refresh (expiryRefreshToken w);
          expirationDays = (if rememberMe doc then 30 else 7);
          newExpiresAt = addDays w expirationDays (now w);
          saved = saveToken w st1
                    \<lparr> so_userId = sub payload,
                      so_token = newRefreshToken,
                      so_deviceId = nullish (Option.bind opts opts_deviceId) (deviceId doc),
                      so_ipAddress = nullish (Option.bind opts opts_ipAddress) (ipAddress doc),
                      so_userAgent = nullish (Option.bind opts opts_userAgent) (userAgent doc),
                      so_deviceName = deviceName doc,
                      so_rememberMe = Some (rememberMe doc),
                      so_tokenFamily = tokenFamily doc,
                      so_replacesTokenId = Some (tokenId doc),
                      so_type = None,
                      so_metadata = Some (metadata doc),
                      so_expiresAt = Some newExpiresAt \<rparr>
      in (\<lparr> access_token = newAccessToken,
             access_expiresAt = strToDate w (expiryAccessToken w),
             refresh_token = newRefreshToken,
             refresh_expiresAt = newExpiresAt \<rparr>,
          snd saved))"

text \<open>\<^verbatim>\<open>refreshAuth\<close>, lines 131 to 237: the two halves one after the other.\<close>

definition refreshAuth ::
  "ambient \<Rightarrow> store \<Rightarrow> string \<Rightarrow> IToken option \<Rightarrow> (ApiError + authTokens) \<times> store" where
  "refreshAuth w st refreshToken opts =
     (case refreshAuth_check w st refreshToken of
        (Inl err, st') \<Rightarrow> (Inl err, st')
      | (Inr (payload, doc), st') \<Rightarrow>
          (let done = refreshAuth_rotate w st' payload doc opts
           in (Inr (fst done), snd done)))"

section \<open>Session registry and cleanup\<close>

text \<open>\<^verbatim>\<open>revokeRefreshToken\<close>, lines 239 to 253; the reason defaults to \<^verbatim>\<open>"user_logout"\<close>.\<close>

definition revokeRefreshToken :: "ambient \<Rightarrow> store \<Rightarrow> string \<Rightarrow> string option \<Rightarrow> bool \<times> store" where
  "revokeRefreshToken w st t reason =
     (let why = (case reason of None \<Rightarrow> ''user_logout'' | Some s \<Rightarrow> s)
      in (length (filter (liveRefresh t) st) > 0,
          updateMany (liveRefresh t) (revokeData (now w) why) st))"

text \<open>
  \<^verbatim>\<open>revokeAllForUser\<close>, lines 255 to 272; \<^verbatim>\<open>opts?.reason || "..."\<close> replaces an absent
  or empty reason.
\<close>

definition revokeAllForUser :: "ambient \<Rightarrow> store \<Rightarrow> string \<Rightarrow> string option \<Rightarrow> bool \<times> store" where
  "revokeAllForUser w st uid reason =
     (let why = (case reason of None \<Rightarrow> ''User logged out from all devices''
                 | Some s \<Rightarrow> if s = [] then ''User logged out from all devices'' else s)
      in (True,
          updateMany (\<lambda>r. userId r = uid \<and> type r = refresh \<and> \<not> isRevoked r)
            (revokeData (now w) why) st))"

text \<open>\<^verbatim>\<open>revokeSession\<close>, lines 303 to 322.\<close>

definition revokeSession :: "ambient \<Rightarrow> store \<Rightarrow> string \<Rightarrow> string \<Rightarrow> (ApiError + bool) \<times> store" where
  "revokeSession w st uid sessionId =
     (case find (\<lambda>r. tokenId r = sessionId \<and> userId r = uid \<and> type r = refresh) st of
        None \<Rightarrow> (Inl (ApiError 404 ''Session not found''), st)
      | Some _ \<Rightarrow> (Inr True, updateById sessionId (revokeData (now w) ''Revoked by user'') st))"

text \<open>
  \<^verbatim>\<open>cleanupExpiredTokens\<close>, lines 324 to 339. \<open>purged t cutoff\<close> is the \<^verbatim>\<open>where\<close> of
  the \<^verbatim>\<open>deleteMany\<close>, for the clock \<open>t\<close> and the date \<^verbatim>\<open>thirtyDaysAgo\<close>; a comparison
  with a null column selects nothing.
\<close>

definition purged :: "time \<Rightarrow> time \<Rightarrow> tokenDoc \<Rightarrow> bool" where
  "purged t cutoff r =
     ((case expiresAt r of None \<Rightarrow> False | Some e \<Rightarrow> e < t) \<or>
      (isRevoked r \<and> (case revokedAt r of None \<Rightarrow> False | Some v \<Rightarrow> v < cutoff)))"

definition cleanupExpiredTokens :: "ambient \<Rightarrow> store \<Rightarrow> nat \<times> store" where
  "cleanupExpiredTokens w st =
     (let thirtyDaysAgo = addDays w (- 30) (now w)
      in (length (filter (purged (now w) thirtyDaysAgo) st),
          filter (\<lambda>r. \<not> purged (now w) thirtyDaysAgo r) st))"

text \<open>
  The query engine behind \<^verbatim>\<open>findMany\<close>: how it orders rows for an \<^verbatim>\<open>orderBy\<close>
  (a list of column and direction), and whether the email of the user who owns a row
  contains a string, compared without case (the \<^verbatim>\<open>user\<close> relation).
\<close>

type_synonym orderSpec = "(string \<times> string) list"

record queryEngine =
  orderBy :: "orderSpec \<Rightarrow> tokenDoc list \<Rightarrow> tokenDoc list"
  userEmailContains :: "string \<Rightarrow> string \<Rightarrow> bool"

record PaginationOptions =
  po_limit :: "int option"
  po_page :: "int option"
  po_maxLimit :: "int option"
  po_sort :: "orderSpec option"

record Pagination =
  pg_total :: int
  pg_page :: int
  pg_limit :: int
  pg_totalPages :: int
  pg_hasNextPage :: bool
  pg_hasPrevPage :: bool

record PaginationResult =
  data :: "tokenDoc list"
  pagination :: Pagination

text \<open>
  \<^verbatim>\<open>paginate\<close> of \<^verbatim>\<open>utils/paginate.ts\<close>, lines 94 to 130, on whole numbers. The
  \<^verbatim>\<open>findMany\<close> has a \<^verbatim>\<open>where\<close>, \<^verbatim>\<open>take\<close>, \<^verbatim>\<open>skip\<close> and, when a sort is given, an
  \<^verbatim>\<open>orderBy\<close>; it has no \<^verbatim>\<open>select\<close>, so each element of \<open>data\<close> is a whole row. With
  \<^verbatim>\<open>maxLimit\<close> below 1 the source asks for a non-positive number of rows and divides by
  it; that call is outside this model (\<open>None\<close>).
\<close>

definition paginate ::
  "queryEngine \<Rightarrow> store \<Rightarrow> PaginationOptions \<Rightarrow> (tokenDoc \<Rightarrow> bool) \<Rightarrow> PaginationResult option" where
  "paginate q st options filters =
     (let limit = (case po_limit options of None \<Rightarrow> 10 | Some l \<Rightarrow> l);
          page = (case po_page options of None \<Rightarrow> 1 | Some p \<Rightarrow> p);
          maxLimit = (case po_maxLimit options of None \<Rightarrow> 100 | Some m \<Rightarrow> m);
          sanitizedLimit = min (max 1 limit) maxLimit;
          sanitizedPage = max 1 page;
          skip = (sanitizedPage - 1) * sanitizedLimit;
          matching = filter filters st;
          ordered = (case po_sort options of None \<Rightarrow> matching | Some s \<Rightarrow> orderBy q s matching);
          total = int (length matching);
          totalPages = (total + sanitizedLimit - 1) div sanitizedLimit
      in if sanitizedLimit < 1 then None
         else Some \<lparr> data = take (nat sanitizedLimit) (drop (nat skip) ordered),
                     pagination = \<lparr> pg_total = total,
                                     pg_page = sanitizedPage,
                                     pg_limit = sanitizedLimit,
                                     pg_totalPages = totalPages,
                                     pg_hasNextPage = (sanitizedPage < totalPages),
                                     pg_hasPrevPage = (sanitizedPage > 1) \<rparr> \<rparr>)"

text \<open>
  \<^verbatim>\<open>listUserSessions\<close> of \<^verbatim>\<open>token.service.ts\<close>, lines 286 to 301. An absent or empty
  \<^verbatim>\<open>filters.email\<close> and an absent \<^verbatim>\<open>filters.type\<close> add no condition.
\<close>

record sessionFilters =
  f_email :: "string option"
  f_type :: "tokenType option"

definition listUserSessions ::
  "queryEngine \<Rightarrow> store \<Rightarrow> PaginationOptions \<Rightarrow> sessionFilters \<Rightarrow> PaginationResult option" where
  "listUserSessions q st options filters =
     paginate q st options
       (\<lambda>r. (case f_email filters of
                None \<Rightarrow> True
              | Some e \<Rightarrow> if e = [] then True else userEmailContains q e (userId r)) \<and>
             (case f_type filters of None \<Rightarrow> True | Some k \<Rightarrow> type r = k))"

text \<open>
  The other \<^verbatim>\<open>listUserSessions\<close> of the repository (the second copy of the service,
  lines 270 to 292): one user's live refresh rows, most recently used first, through a
  \<^verbatim>\<open>select\<close> of ten columns.
\<close>

record sessionSummary =
  ss_id :: string
  ss_deviceId :: "string option"
  ss_deviceName :: "string option"
  ss_ipAddress :: "string option"
  ss_userAgent :: "string option"
  ss_createdAt :: time
  ss_lastUsedAt :: "time option"
  ss_expiresAt :: "time option"
  ss_rememberMe :: bool
  ss_metadata :: metadata_bag

definition selectSummary :: "tokenDoc \<Rightarrow> sessionSummary" where
  "selectSummary r =
     \<lparr> ss_id = tokenId r, ss_deviceId = deviceId r, ss_deviceName = deviceName r,
       ss_ipAddress = ipAddress r, ss_userAgent = userAgent r, ss_createdAt = createdAt r,
       ss_lastUsedAt = lastUsedAt r, ss_expiresAt = expiresAt r, ss_rememberMe = rememberMe r,
       ss_metadata = metadata r \<rparr>"

definition listUserSessions_select :: "queryEngine \<Rightarrow> ambient \<Rightarrow> store \<Rightarrow> string \<Rightarrow> sessionSummary list" where
  "listUserSessions_select q w st uid =
     map selectSummary
       (orderBy q [(''lastUsedAt'', ''desc'')]
          (filter (\<lambda>r. userId r = uid \<and> type r = refresh \<and> \<not> isRevoked r \<and>
                        (case expiresAt r of None \<Rightarrow> False | Some e \<Rightarrow> e > now w)) st))"

section \<open>Two rotation calls on one token\<close>

text \<open>
  Each \<^verbatim>\<open>await\<close> of \<^verbatim>\<open>refreshAuth\<close> is one call on the store, and another request
  may run between two of them. \<open>refreshAuth_sequential\<close> runs call A to its end and
  then call B. \<open>refreshAuth_interleaved\<close> is the schedule in which both calls have
  done their read of line 143 and their checks before either does the write of line
  186: A's first half, B's first half, A's second half, B's second half.
\<close>

definition refreshAuth_sequential ::
  "ambient \<Rightarrow> ambient \<Rightarrow> store \<Rightarrow> string \<Rightarrow> IToken option \<Rightarrow> IToken option \<Rightarrow>
     ((ApiError + authTokens) \<times> (ApiError + authTokens)) \<times> store" where
  "refreshAuth_sequential wA wB st t optsA optsB =
     (let a = refreshAuth wA st t optsA;
          b = refreshAuth wB (snd a) t optsB
      in ((fst a, fst b), snd b))"

definition refreshAuth_interleaved ::
  "ambient \<Rightarrow> ambient \<Rightarrow> store \<Rightarrow> string \<Rightarrow> IToken option \<Rightarrow> IToken option \<Rightarrow>
     ((ApiError + authTokens) \<times> (ApiError + authTokens)) \<times> store" where
  "refreshAuth_interleaved wA wB st t optsA optsB =
     (case refreshAuth_check wA st t of
        (Inl errA, st1) \<Rightarrow>
          (let b = refreshAuth wB st1 t optsB in ((Inl errA, fst b), snd b))
      | (Inr (payloadA, docA), st1) \<Rightarrow>
          (case refreshAuth_check wB st1 t of
             (Inl errB, st2) \<Rightarrow>
               (let a = refreshAuth_rotate wA st2 payloadA docA optsA
                in ((Inr (fst a), Inl errB), snd a))
           | (Inr (payloadB, docB), st2) \<Rightarrow>
               (let a = refreshAuth_rotate wA st2 payloadA docA optsA;
                    b = refreshAuth_rotate wB (snd a) payloadB docB optsB
                in ((Inr (fst a), Inr (fst b)), snd b))))"

section \<open>The revocation columns\<close>

text \<open>A row has \<open>revokedAt\<close> and \<open>revokedReason\<close> both set or both null.\<close>

definition revocationPaired :: "tokenDoc \<Rightarrow> bool" where
  "revocationPaired r = ((revokedAt r = None) = (revokedReason r = None))"

section \<open>Sample data\<close>

text \<open>
  A request at 2023-11-14T22:13:20Z for the refresh token \<^verbatim>\<open>rt-1\<close> of user \<^verbatim>\<open>u1\<close>, in
  a process whose time zone is UTC, a second request one second later, and rows for
  them to meet.
\<close>

definition ex_ambient :: ambient where
  "ex_ambient =
     \<lparr> now = 1700000000000,
       addDays = (\<lambda>n t. t + n * 86400000),
       verifyToken = (\<lambda>t. if t = ''rt-1'' then Some \<lparr> sub = ''u1'', payload_type = ''refresh'' \<rparr>
                           else None),
       generateToken = (\<lambda>s k ttl. (case k of access \<Rightarrow> ''at-2'' | refresh \<Rightarrow> ''rt-2'')),
       randomBytesHex = ''9f2c41d07ab3e6581c0d92f4a7b6e350'',
       createId = ''id-2'',
       strToDate = (\<lambda>s. 1700259200000),
       expiryAccessToken = ''3d'',
       expiryRefreshToken = ''30d'' \<rparr>"

definition ex_ambient_later :: ambient where
  "ex_ambient_later =
     ex_ambient \<lparr> now := 1700000001000,
                  generateToken := (\<lambda>s k ttl. (case k of access \<Rightarrow> ''at-3'' | refresh \<Rightarrow> ''rt-3'')),
                  createId := ''id-3'',
                  strToDate := (\<lambda>s. 1700259201000) \<rparr>"

definition ex_row :: tokenDoc where
  "ex_row =
     \<lparr> tokenId = ''id-1'', token = ''rt-1'', userId = ''u1'', type = refresh,
       deviceId = Some ''dev-1'', deviceName = Some ''iPhone 15'', userAgent = Some ''Safari'',
       ipAddress = Some ''10.0.0.1'', tokenFamily = Some ''fam-1'', replacesTokenId = None,
       rememberMe = False, metadata = [(''os'', ''iOS'')], isRevoked = False, useCount = 0,
       expiresAt = Some 1700500000000, revokedAt = None, revokedReason = None,
       lastUsedAt = None, createdAt = 1699900000000 \<rparr>"

definition ex_opts :: IToken where
  "ex_opts =
     \<lparr> opts_userId = ''u1'', opts_deviceId = Some ''dev-9'', opts_deviceName = Some ''Pixel 9'',
       opts_ipAddress = None, opts_userAgent = Some ''Chrome'', opts_rememberMe = None,
       opts_metadata = None \<rparr>"

definition ex_engine :: queryEngine where
  "ex_engine = \<lparr> orderBy = (\<lambda>s rows. rows), userEmailContains = (\<lambda>e u. True) \<rparr>"

definition ex_reused :: tokenDoc where
  "ex_reused = ex_row \<lparr> useCount := 1 \<rparr>"

definition ex_reused_nofam :: tokenDoc where
  "ex_reused_nofam = ex_row \<lparr> useCount := 1, tokenFamily := None \<rparr>"

definition ex_sibling :: tokenDoc where
  "ex_sibling = ex_row \<lparr> tokenId := ''id-0'', token := ''rt-0'', isRevoked := True,
                         revokedReason := Some ''Token rotated'', useCount := 1,
                         lastUsedAt := Some 1699950000000, expiresAt := Some 1699990000000 \<rparr>"

definition ex_other :: tokenDoc where
  "ex_other = ex_row \<lparr> tokenId := ''id-7'', token := ''rt-7'', userId := ''u2'',
                       tokenFamily := Some ''fam-7'' \<rparr>"

definition ex_expired :: tokenDoc where
  "ex_expired = ex_row \<lparr> expiresAt := Some 1699999999999 \<rparr>"


definition ex_ambient_sweep :: ambient where
  "ex_ambient_sweep = ex_ambient \<lparr> now := 1700518400000 \<rparr>"

text \<open>
  A login at 2023-11-01T12:00:00Z in a process whose time zone is America/New_York. The
  zone is four hours behind UTC until 2023-11-05T06:00:00Z (1699164000000) and five hours
  behind from then on; \<open>addDays_newyork\<close> is the calendar step of that zone for the dates
  used here.
\<close>

definition addDays_newyork :: "int \<Rightarrow> time \<Rightarrow> time" where
  "addDays_newyork n t =
     (let wall = t - (if t < 1699164000000 then 14400000 else 18000000) + n * 86400000
      in if wall + 14400000 < 1699164000000 then wall + 14400000 else wall + 18000000)"

definition ex_ambient_newyork :: ambient where
  "ex_ambient_newyork = ex_ambient \<lparr> now := 1698840000000, addDays := addDays_newyork \<rparr>"

text \<open>
  A sweep at 2023-11-20T12:00:00Z in that zone, and a row revoked 30 days of 24 hours and
  30 minutes before it: the instant 30 calendar days before the sweep is an hour earlier
  than 30 times 24 hours before it, so the row is not yet past the window.
\<close>

definition ex_ambient_newyork_sweep :: ambient where
  "ex_ambient_newyork_sweep = ex_ambient_newyork \<lparr> now := 1700481600000 \<rparr>"

definition ex_logged_out :: tokenDoc where
  "ex_logged_out = ex_row \<lparr> isRevoked := True, revokedAt := Some 1697887800000,
                             revokedReason := Some ''user_logout'' \<rparr>"

definition ex_reused_revoked :: tokenDoc where
  "ex_reused_revoked =
     ex_reused \<lparr> isRevoked := True, revokedAt := Some 1700000000000,
                 revokedReason := Some ''Token family revoked due to reuse'' \<rparr>"

section \<open>Auxiliary facts\<close>

lemma find_SomeD: "find P xs = Some x \<Longrightarrow> x \<in> set xs \<and> P x"
  by (induction xs) (auto split: if_splits)

lemma distinct_tokenId_eq:
  assumes "distinct (map tokenId st)" and "doc \<in> set st" and "r \<in> set st"
  shows "(tokenId r = tokenId doc) = (r = doc)"
  using assms by (auto simp: distinct_map inj_on_def)

lemma updateById_distinct:
  assumes "distinct (map tokenId st)" and "doc \<in> set st"
  shows "updateById (tokenId doc) f st = map (\<lambda>r. if r = doc then f doc else r) st"
  unfolding updateById_def updateMany_def
  by (rule map_cong) (auto simp: distinct_tokenId_eq [OF assms])





lemma find_filter: "find P xs = (case filter P xs of [] \<Rightarrow> None | x # _ \<Rightarrow> Some x)"
  by (induction xs) simp_all

lemma rotated_not_live: "\<not> liveRefresh t (rotatedData n r)"
  by (simp add: liveRefresh_def rotatedData_def)

lemma filter_live_updateById:
  "(\<forall>r\<in>set st. liveRefresh t r \<longrightarrow> tokenId r = i) \<Longrightarrow>
     filter (liveRefresh t) (updateById i (rotatedData n) st) = []"
  by (induction st) (auto simp: updateById_def updateMany_def rotated_not_live)

lemma filter_live_after_rotation:
  assumes "filter (liveRefresh t) st = [doc]"
  shows "filter (liveRefresh t) (updateById (tokenId doc) (rotatedData n) st) = []"
proof (rule filter_live_updateById, intro ballI impI)
  fix r assume "r \<in> set st" and "liveRefresh t r"
  then have "r \<in> set (filter (liveRefresh t) st)" by simp
  with assms show "tokenId r = tokenId doc" by simp
qed

lemma revokeData_paired: "revocationPaired (revokeData t why r)"
  by (simp add: revocationPaired_def revokeData_def)

lemma updateMany_paired:
  "list_all revocationPaired st \<Longrightarrow> list_all revocationPaired (updateMany wh (revokeData t why) st)"
  by (induction st) (simp_all add: updateMany_def revokeData_paired)

lemma revokeRefreshToken_paired:
  "list_all revocationPaired st \<Longrightarrow> list_all revocationPaired (snd (revokeRefreshToken w st t reason))"
  by (simp add: revokeRefreshToken_def updateMany_paired Let_def)

lemma revokeAllForUser_paired:
  "list_all revocationPaired st \<Longrightarrow> list_all revocationPaired (snd (revokeAllForUser w st uid reason))"
  by (simp add: revokeAllForUser_def updateMany_paired Let_def)

lemma revokeSession_paired:
  "list_all revocationPaired st \<Longrightarrow> list_all revocationPaired (snd (revokeSession w st uid sid))"
  by (simp add: revokeSession_def updateById_def updateMany_paired split: option.splits)

lemma cleanupExpiredTokens_paired:
  "list_all revocationPaired st \<Longrightarrow> list_all revocationPaired (snd (cleanupExpiredTokens w st))"
  by (induction st) (simp_all add: cleanupExpiredTokens_def Let_def)

lemma generateLoginTokens_paired:
  "list_all revocationPaired st \<Longrightarrow> list_all revocationPaired (snd (generateLoginTokens w st opts))"
  by (simp add: generateLoginTokens_def saveToken_def revocationPaired_def Let_def)

lemma deleteById_paired:
  "list_all revocationPaired st \<Longrightarrow> list_all revocationPaired (deleteById i st)"
  by (induction st) (simp_all add: deleteById_def)

lemma refreshAuth_check_paired:
  "list_all revocationPaired st \<Longrightarrow> list_all revocationPaired (snd (refreshAuth_check w st t))"
  by (simp add: refreshAuth_check_def deleteById_paired updateMany_paired split: option.splits)

lemma selectSummary_token: "selectSummary (r \<lparr> token := x \<rparr>) = selectSummary r"
  by (simp add: selectSummary_def)

lemma purged_iff:
  "purged t cutoff =
     (\<lambda>r. (\<exists>e. expiresAt r = Some e \<and> e < t) \<or>
          (isRevoked r \<and> (\<exists>v. revokedAt r = Some v \<and> v < cutoff)))"
  by (rule ext) (simp add: purged_def split: option.splits)

lemma refreshAuth_reuse_store:
  assumes "verifyToken w t = Some p" and "payload_type p = ''refresh''"
    and "find (liveRefresh t) st = Some doc"
    and "\<not> expiredAt (now w) doc" and "useCount doc > 0"
    and "tokenFamily doc = Some fam" and "fam \<noteq> []"
  shows "snd (refreshAuth w st t opts) =
           updateMany (\<lambda>r. tokenFamily r = Some fam)
             (revokeData (now w) ''Token family revoked due to reuse'') st"
  using assms by (simp add: refreshAuth_def refreshAuth_check_def)

lemma updateMany_family_member:
  assumes "r \<in> set (updateMany (\<lambda>r. tokenFamily r = Some fam) (revokeData n why) st)"
    and "tokenFamily r = Some fam"
  shows "isRevoked r \<and> revokedAt r = Some n"
proof -
  from assms(1) obtain r0 where "r0 \<in> set st"
    and r: "r = (if tokenFamily r0 = Some fam then revokeData n why r0 else r0)"
    by (auto simp: updateMany_def)
  show ?thesis
  proof (cases "tokenFamily r0 = Some fam")
    case True
    with r show ?thesis by (simp add: revokeData_def)
  next
    case False
    with r assms(2) show ?thesis by simp
  qed
qed

section \<open>Issuing: what is stored and returned\<close>

text \<open>
  C4. Issuing a session appends exactly one row to the store and changes no other. The
  row is a refresh row with \<open>useCount = 0\<close> and no \<open>replacesTokenId\<close>; its family is the
  string drawn from the random source in this call; its \<open>expiresAt\<close> is the clock plus
  30 days when \<open>rememberMe\<close> is true and plus 7 days otherwise, the days being calendar
  days of the process's time zone (\<open>addDays\<close>), whatever lifetime string the signed
  token was minted with. The call returns the access token with the expiry
  \<^verbatim>\<open>strToDate\<close> gives it and the refresh token with the stored expiry.
\<close>

theorem generateLoginTokens_issues:
  "generateLoginTokens w st opts =
     (\<lparr> access_token = generateToken w (opts_userId opts) access (expiryAccessToken w),
        access_expiresAt = strToDate w (expiryAccessToken w),
        refresh_token = generateToken w (opts_userId opts) refresh (expiryRefreshToken w),
        refresh_expiresAt = addDays w (if opts_rememberMe opts = Some True then 30 else 7) (now w) \<rparr>,
      st @ [\<lparr> tokenId = createId w,
              token = generateToken w (opts_userId opts) refresh (expiryRefreshToken w),
              userId = opts_userId opts,
              type = refresh,
              deviceId = opts_deviceId opts,
              deviceName = opts_deviceName opts,
              userAgent = opts_userAgent opts,
              ipAddress = opts_ipAddress opts,
              tokenFamily = Some (randomBytesHex w),
              replacesTokenId = None,
              rememberMe = (opts_rememberMe opts = Some True),
              metadata = (case opts_metadata opts of None \<Rightarrow> [] | Some m \<Rightarrow> m),
              isRevoked = False,
              useCount = 0,
              expiresAt = Some (addDays w (if opts_rememberMe opts = Some True then 30 else 7) (now w)),
              revokedAt = None,
              revokedReason = None,
              lastUsedAt = None,
              createdAt = now w \<rparr>])"
  by (cases "opts_rememberMe opts")
     (auto simp: generateLoginTokens_def saveToken_def Let_def)

theorem generateLoginTokens_issues_witness:
  "generateLoginTokens ex_ambient_newyork [ex_other] ex_opts =
     (\<lparr> access_token = ''at-2'', access_expiresAt = 1700259200000,
        refresh_token = ''rt-2'', refresh_expiresAt = 1699448400000 \<rparr>,
      [ex_other,
       \<lparr> tokenId = ''id-2'', token = ''rt-2'', userId = ''u1'', type = refresh,
         deviceId = Some ''dev-9'', deviceName = Some ''Pixel 9'', userAgent = Some ''Chrome'',
         ipAddress = None, tokenFamily = Some ''9f2c41d07ab3e6581c0d92f4a7b6e350'',
         replacesTokenId = None, rememberMe = False, metadata = [], isRevoked = False,
         useCount = 0, expiresAt = Some 1699448400000, revokedAt = None,
         revokedReason = None, lastUsedAt = None, createdAt = 1698840000000 \<rparr>]) \<and>
   generateLoginTokens ex_ambient [ex_other] (ex_opts \<lparr> opts_rememberMe := Some True \<rparr>) =
     (\<lparr> access_token = ''at-2'', access_expiresAt = 1700259200000,
        refresh_token = ''rt-2'', refresh_expiresAt = 1702592000000 \<rparr>,
      [ex_other,
       \<lparr> tokenId = ''id-2'', token = ''rt-2'', userId = ''u1'', type = refresh,
         deviceId = Some ''dev-9'', deviceName = Some ''Pixel 9'', userAgent = Some ''Chrome'',
         ipAddress = None, tokenFamily = Some ''9f2c41d07ab3e6581c0d92f4a7b6e350'',
         replacesTokenId = None, rememberMe = True, metadata = [], isRevoked = False,
         useCount = 0, expiresAt = Some 1702592000000, revokedAt = None,
         revokedReason = None, lastUsedAt = None, createdAt = 1700000000000 \<rparr>])"
  using generateLoginTokens_issues [of ex_ambient_newyork "[ex_other]" ex_opts]
    generateLoginTokens_issues [of ex_ambient "[ex_other]" "ex_opts \<lparr> opts_rememberMe := Some True \<rparr>"]
  by (simp add: ex_ambient_def ex_ambient_newyork_def addDays_newyork_def ex_opts_def Let_def)

section \<open>Rotation: the failing branches\<close>

text \<open>
  C5. When the presented token verifies as a refresh token and the row found for it has
  an \<open>expiresAt\<close> before the clock, \<^verbatim>\<open>refreshAuth\<close> deletes the row with that id and
  throws "Refresh token expired."; no token pair is returned and the row is no longer in
  the store.
\<close>

theorem refreshAuth_expired_deletes:
  assumes "verifyToken w t = Some p" and "payload_type p = ''refresh''"
    and "find (liveRefresh t) st = Some doc"
    and "expiresAt doc = Some e" and "e < now w"
  shows "refreshAuth w st t opts = (Inl TokenExpired, filter (\<lambda>r. tokenId r \<noteq> tokenId doc) st) \<and>
         doc \<notin> set (snd (refreshAuth w st t opts))"
  using assms by (simp add: refreshAuth_def refreshAuth_check_def expiredAt_def deleteById_def)

theorem refreshAuth_expired_deletes_witness:
  "find (liveRefresh ''rt-1'') [ex_other, ex_expired] = Some ex_expired \<and>
   expiresAt ex_expired = Some 1699999999999 \<and> 1699999999999 < now ex_ambient \<and>
   refreshAuth ex_ambient [ex_other, ex_expired] ''rt-1'' None =
     (Inl (ApiError 403 ''Refresh token expired.''), [ex_other])"
proof -
  note ex = ex_ambient_def ex_row_def ex_other_def ex_expired_def
  have v: "verifyToken ex_ambient ''rt-1'' = Some \<lparr> sub = ''u1'', payload_type = ''refresh'' \<rparr>"
    by (simp add: ex)
  have k: "payload_type \<lparr> sub = ''u1'', payload_type = ''refresh'' \<rparr> = ''refresh''" by simp
  have f: "find (liveRefresh ''rt-1'') [ex_other, ex_expired] = Some ex_expired"
    by (simp add: ex liveRefresh_def)
  have x: "expiresAt ex_expired = Some 1699999999999" by (simp add: ex)
  have l: "1699999999999 < now ex_ambient" by (simp add: ex)
  from refreshAuth_expired_deletes [OF v k f x l, of None] f x l
  show ?thesis by (simp add: ex TokenExpired_def)
qed

text \<open>
  C1, as the code has it. When the presented token verifies, the row found for it is
  not expired, its \<open>useCount\<close> is above 0 and its family is a non-empty string,
  \<^verbatim>\<open>refreshAuth\<close> sets \<open>isRevoked\<close>, \<open>revokedAt\<close> (the clock) and the reason "Token family
  revoked due to reuse" on every row of that family, leaves every other row as it was,
  and throws the reuse error; no token pair is returned.
\<close>

theorem refreshAuth_reuse_revokes_family:
  assumes "verifyToken w t = Some p" and "payload_type p = ''refresh''"
    and "find (liveRefresh t) st = Some doc"
    and "\<not> expiredAt (now w) doc" and "useCount doc > 0"
    and "tokenFamily doc = Some fam" and "fam \<noteq> []"
  shows "refreshAuth w st t opts =
           (Inl ReuseDetected,
            map (\<lambda>r. if tokenFamily r = Some fam
                      then r\<lparr> isRevoked := True, revokedAt := Some (now w),
                              revokedReason := Some ''Token family revoked due to reuse'' \<rparr>
                      else r) st)"
  using assms by (simp add: refreshAuth_def refreshAuth_check_def updateMany_def revokeData_def)

theorem refreshAuth_reuse_revokes_family_witness:
  "find (liveRefresh ''rt-1'') [ex_sibling, ex_other, ex_reused] = Some ex_reused \<and>
   \<not> expiredAt (now ex_ambient) ex_reused \<and> useCount ex_reused > 0 \<and>
   tokenFamily ex_reused = Some ''fam-1'' \<and>
   refreshAuth ex_ambient [ex_sibling, ex_other, ex_reused] ''rt-1'' None =
     (Inl ReuseDetected,
      [ex_sibling \<lparr> isRevoked := True, revokedAt := Some 1700000000000,
                    revokedReason := Some ''Token family revoked due to reuse'' \<rparr>,
       ex_other,
       ex_reused \<lparr> isRevoked := True, revokedAt := Some 1700000000000,
                   revokedReason := Some ''Token family revoked due to reuse'' \<rparr>])"
proof -
  note ex = ex_ambient_def ex_row_def ex_reused_def ex_sibling_def ex_other_def
  have v: "verifyToken ex_ambient ''rt-1'' = Some \<lparr> sub = ''u1'', payload_type = ''refresh'' \<rparr>"
    by (simp add: ex)
  have k: "payload_type \<lparr> sub = ''u1'', payload_type = ''refresh'' \<rparr> = ''refresh''" by simp
  have f: "find (liveRefresh ''rt-1'') [ex_sibling, ex_other, ex_reused] = Some ex_reused"
    by (simp add: ex liveRefresh_def)
  have e: "\<not> expiredAt (now ex_ambient) ex_reused" by (simp add: ex expiredAt_def)
  have u: "useCount ex_reused > 0" by (simp add: ex)
  have n: "tokenFamily ex_reused = Some ''fam-1''" by (simp add: ex)
  have m: "''fam-1'' \<noteq> []" by simp
  from refreshAuth_reuse_revokes_family [OF v k f e u n m, of None] f e u n
  show ?thesis by (simp add: ex)
qed

text \<open>
  C1, as stated, fails where the family is null: the presented row verifies, is live,
  unexpired and has \<open>useCount = 1\<close>, and after the call the store is unchanged, so the
  row, which has the family of the presented row, is still not revoked and has neither
  \<open>revokedAt\<close> nor a reason.
\<close>

theorem refreshAuth_reuse_null_family_counterexample:
  "verifyToken ex_ambient ''rt-1'' = Some \<lparr> sub = ''u1'', payload_type = ''refresh'' \<rparr> \<and>
   find (liveRefresh ''rt-1'') [ex_reused_nofam] = Some ex_reused_nofam \<and>
   \<not> expiredAt (now ex_ambient) ex_reused_nofam \<and> useCount ex_reused_nofam > 0 \<and>
   snd (refreshAuth ex_ambient [ex_reused_nofam] ''rt-1'' None) = [ex_reused_nofam] \<and>
   \<not> isRevoked ex_reused_nofam \<and> revokedAt ex_reused_nofam = None \<and>
   revokedReason ex_reused_nofam = None"
  by (simp add: refreshAuth_def refreshAuth_check_def ex_ambient_def ex_row_def ex_reused_nofam_def
        liveRefresh_def expiredAt_def)

text \<open>
  C10. When the presented token verifies, the row found for it is not expired, its
  \<open>useCount\<close> is above 0 and its family is null, \<^verbatim>\<open>refreshAuth\<close> changes no row of the
  store and still throws "Token reuse detected - all sessions revoked for security".
\<close>

theorem refreshAuth_reuse_without_family:
  assumes "verifyToken w t = Some p" and "payload_type p = ''refresh''"
    and "find (liveRefresh t) st = Some doc"
    and "\<not> expiredAt (now w) doc" and "useCount doc > 0"
    and "tokenFamily doc = None"
  shows "refreshAuth w st t opts = (Inl ReuseDetected, st)"
  using assms by (simp add: refreshAuth_def refreshAuth_check_def)

theorem refreshAuth_reuse_without_family_witness:
  "find (liveRefresh ''rt-1'') [ex_other, ex_reused_nofam] = Some ex_reused_nofam \<and>
   \<not> expiredAt (now ex_ambient) ex_reused_nofam \<and> useCount ex_reused_nofam > 0 \<and>
   tokenFamily ex_reused_nofam = None \<and>
   refreshAuth ex_ambient [ex_other, ex_reused_nofam] ''rt-1'' (Some ex_opts) =
     (Inl (ApiError 403 ''Token reuse detected - all sessions revoked for security''),
      [ex_other, ex_reused_nofam])"
proof -
  note ex = ex_ambient_def ex_row_def ex_opts_def ex_reused_nofam_def ex_other_def
  have v: "verifyToken ex_ambient ''rt-1'' = Some \<lparr> sub = ''u1'', payload_type = ''refresh'' \<rparr>"
    by (simp add: ex)
  have k: "payload_type \<lparr> sub = ''u1'', payload_type = ''refresh'' \<rparr> = ''refresh''" by simp
  have f: "find (liveRefresh ''rt-1'') [ex_other, ex_reused_nofam] = Some ex_reused_nofam"
    by (simp add: ex liveRefresh_def)
  have e: "\<not> expiredAt (now ex_ambient) ex_reused_nofam" by (simp add: ex expiredAt_def)
  have u: "useCount ex_reused_nofam > 0" by (simp add: ex)
  have n: "tokenFamily ex_reused_nofam = None" by (simp add: ex)
  from refreshAuth_reuse_without_family [OF v k f e u n, of "Some ex_opts"] f e u n
  show ?thesis by (simp add: ReuseDetected_def)
qed

section \<open>Rotation: the successful branch\<close>

text \<open>
  C3. When the presented token verifies as a refresh token and the row found for it is
  live, unexpired and has \<open>useCount = 0\<close>, \<^verbatim>\<open>refreshAuth\<close> returns a new access and
  refresh token with their expiries. In the store the presented row has
  \<open>useCount = 1\<close>, \<open>isRevoked\<close>, the reason "Token rotated" and \<open>lastUsedAt\<close> the clock,
  so the lookup of line 143 does not find it again; every other row is as it was; and
  one row is appended: a refresh row holding the new refresh token, in the family of the
  presented row, with \<open>replacesTokenId\<close> the presented row's id and its \<open>rememberMe\<close>.
  Ids are the primary key, hence distinct.
\<close>

theorem refreshAuth_rotates_fresh:
  assumes "verifyToken w t = Some p" and "payload_type p = ''refresh''"
    and "find (liveRefresh t) st = Some doc"
    and "\<not> expiredAt (now w) doc" and "useCount doc = 0"
    and "distinct (map tokenId st)"
  shows "refreshAuth w st t opts =
           (Inr \<lparr> access_token = generateToken w (sub p) access (expiryAccessToken w),
                  access_expiresAt = strToDate w (expiryAccessToken w),
                  refresh_token = generateToken w (sub p) refresh (expiryRefreshToken w),
                  refresh_expiresAt = addDays w (if rememberMe doc then 30 else 7) (now w) \<rparr>,
            map (\<lambda>r. if r = doc
                      then doc \<lparr> lastUsedAt := Some (now w), useCount := 1, isRevoked := True,
                                 revokedReason := Some ''Token rotated'' \<rparr>
                      else r) st
            @ [\<lparr> tokenId = createId w,
                 token = generateToken w (sub p) refresh (expiryRefreshToken w),
                 userId = sub p,
                 type = refresh,
                 deviceId = nullish (Option.bind opts opts_deviceId) (deviceId doc),
                 deviceName = deviceName doc,
                 userAgent = nullish (Option.bind opts opts_userAgent) (userAgent doc),
                 ipAddress = nullish (Option.bind opts opts_ipAddress) (ipAddress doc),
                 tokenFamily = tokenFamily doc,
                 replacesTokenId = Some (tokenId doc),
                 rememberMe = rememberMe doc,
                 metadata = metadata doc,
                 isRevoked = False,
                 useCount = 0,
                 expiresAt = Some (addDays w (if rememberMe doc then 30 else 7) (now w)),
                 revokedAt = None,
                 revokedReason = None,
                 lastUsedAt = None,
                 createdAt = now w \<rparr>])"
proof -
  from assms(3) have mem: "doc \<in> set st" by (simp add: find_SomeD)
  have chk: "refreshAuth_check w st t = (Inr (p, doc), st)"
    using assms(1-5) by (simp add: refreshAuth_check_def)
  have upd: "updateById (tokenId doc) (rotatedData (now w)) st =
               map (\<lambda>r. if r = doc
                         then doc \<lparr> lastUsedAt := Some (now w), useCount := 1, isRevoked := True,
                                    revokedReason := Some ''Token rotated'' \<rparr>
                         else r) st"
    using assms(5) by (simp add: updateById_distinct [OF assms(6) mem] rotatedData_def)
  show ?thesis
    by (simp add: refreshAuth_def chk refreshAuth_rotate_def upd saveToken_def Let_def)
qed

theorem refreshAuth_rotates_fresh_witness:
  "find (liveRefresh ''rt-1'') [ex_other, ex_row] = Some ex_row \<and>
   \<not> expiredAt (now ex_ambient) ex_row \<and> useCount ex_row = 0 \<and>
   distinct (map tokenId [ex_other, ex_row]) \<and>
   refreshAuth ex_ambient [ex_other, ex_row] ''rt-1'' None =
     (Inr \<lparr> access_token = ''at-2'', access_expiresAt = 1700259200000,
            refresh_token = ''rt-2'', refresh_expiresAt = 1700604800000 \<rparr>,
      [ex_other,
       ex_row \<lparr> lastUsedAt := Some 1700000000000, useCount := 1, isRevoked := True,
                revokedReason := Some ''Token rotated'' \<rparr>,
       ex_row \<lparr> tokenId := ''id-2'', token := ''rt-2'', replacesTokenId := Some ''id-1'',
                expiresAt := Some 1700604800000, createdAt := 1700000000000 \<rparr>])"
proof -
  note ex = ex_ambient_def ex_row_def ex_other_def
  have v: "verifyToken ex_ambient ''rt-1'' = Some \<lparr> sub = ''u1'', payload_type = ''refresh'' \<rparr>"
    by (simp add: ex)
  have k: "payload_type \<lparr> sub = ''u1'', payload_type = ''refresh'' \<rparr> = ''refresh''" by simp
  have f: "find (liveRefresh ''rt-1'') [ex_other, ex_row] = Some ex_row"
    by (simp add: ex liveRefresh_def)
  have e: "\<not> expiredAt (now ex_ambient) ex_row" by (simp add: ex expiredAt_def)
  have u: "useCount ex_row = 0" by (simp add: ex)
  have d: "distinct (map tokenId [ex_other, ex_row])" by (simp add: ex)
  from refreshAuth_rotates_fresh [OF v k f e u d, of None] f e u d
  show ?thesis by (simp add: ex nullish_def)
qed




section \<open>Two calls on one token\<close>

text \<open>
  C2, as stated, fails: the read of line 143 and the write of line 186 are two store
  calls with nothing between them that would make them one step. In the schedule where
  both calls read the fresh row before either writes, both calls return a new pair.
\<close>

theorem refreshAuth_interleaved_counterexample:
  "find (liveRefresh ''rt-1'') [ex_row] = Some ex_row \<and> useCount ex_row = 0 \<and>
   \<not> expiredAt (now ex_ambient) ex_row \<and> \<not> expiredAt (now ex_ambient_later) ex_row \<and>
   fst (refreshAuth_interleaved ex_ambient ex_ambient_later [ex_row] ''rt-1'' None None) =
     (Inr \<lparr> access_token = ''at-2'', access_expiresAt = 1700259200000,
            refresh_token = ''rt-2'', refresh_expiresAt = 1700604800000 \<rparr>,
      Inr \<lparr> access_token = ''at-3'', access_expiresAt = 1700259201000,
            refresh_token = ''rt-3'', refresh_expiresAt = 1700604801000 \<rparr>)"
  by (simp add: refreshAuth_interleaved_def refreshAuth_check_def refreshAuth_rotate_def
        saveToken_def updateById_def updateMany_def rotatedData_def nullish_def
        liveRefresh_def expiredAt_def ex_ambient_def ex_ambient_later_def ex_row_def
        Let_def)

text \<open>
  C2, as the code has it. Of two rotation calls presenting the same fresh refresh token
  and run one after the other, the first succeeds with a new pair and the second fails:
  with "Refresh token not found or revoked." when the token still verifies as a refresh
  token, and with a verification error otherwise. The token is held by exactly one live
  row, and the refresh token minted by the first call is not the presented one.
\<close>

theorem refreshAuth_sequential_one_success:
  assumes "verifyToken wA t = Some pA" and "payload_type pA = ''refresh''"
    and "filter (liveRefresh t) st = [doc]"
    and "\<not> expiredAt (now wA) doc" and "useCount doc = 0"
    and "generateToken wA (sub pA) refresh (expiryRefreshToken wA) \<noteq> t"
  shows "fst (refreshAuth_sequential wA wB st t optsA optsB) =
           (Inr \<lparr> access_token = generateToken wA (sub pA) access (expiryAccessToken wA),
                  access_expiresAt = strToDate wA (expiryAccessToken wA),
                  refresh_token = generateToken wA (sub pA) refresh (expiryRefreshToken wA),
                  refresh_expiresAt = addDays wA (if rememberMe doc then 30 else 7) (now wA) \<rparr>,
            Inl (case verifyToken wB t of
                   None \<Rightarrow> InvalidToken
                 | Some pB \<Rightarrow> if payload_type pB \<noteq> ''refresh'' then NotRefreshToken
                              else TokenNotFound))"
proof -
  from assms(3) have f: "find (liveRefresh t) st = Some doc" by (simp add: find_filter)
  have chk: "refreshAuth_check wA st t = (Inr (pA, doc), st)"
    using assms(1,2,4,5) f by (simp add: refreshAuth_check_def)
  define st1 where "st1 = snd (refreshAuth_rotate wA st pA doc optsA)"
  have a: "refreshAuth wA st t optsA =
             (Inr \<lparr> access_token = generateToken wA (sub pA) access (expiryAccessToken wA),
                    access_expiresAt = strToDate wA (expiryAccessToken wA),
                    refresh_token = generateToken wA (sub pA) refresh (expiryRefreshToken wA),
                    refresh_expiresAt = addDays wA (if rememberMe doc then 30 else 7) (now wA) \<rparr>,
              st1)"
    by (simp add: refreshAuth_def chk st1_def refreshAuth_rotate_def Let_def)
  have "filter (liveRefresh t) st1 = []"
    using assms(6) filter_live_after_rotation [OF assms(3), of "now wA"]
    by (simp add: st1_def refreshAuth_rotate_def saveToken_def Let_def liveRefresh_def)
  then have none: "find (liveRefresh t) st1 = None" by (simp add: find_filter)
  have b: "fst (refreshAuth wB st1 t optsB) =
             Inl (case verifyToken wB t of
                    None \<Rightarrow> InvalidToken
                  | Some pB \<Rightarrow> if payload_type pB \<noteq> ''refresh'' then NotRefreshToken
                               else TokenNotFound)"
    by (simp add: refreshAuth_def refreshAuth_check_def none split: option.splits)
  show ?thesis by (simp add: refreshAuth_sequential_def a b Let_def)
qed

theorem refreshAuth_sequential_one_success_witness:
  "filter (liveRefresh ''rt-1'') [ex_other, ex_row] = [ex_row] \<and>
   \<not> expiredAt (now ex_ambient) ex_row \<and> useCount ex_row = 0 \<and>
   fst (refreshAuth_sequential ex_ambient ex_ambient_later [ex_other, ex_row] ''rt-1'' None None) =
     (Inr \<lparr> access_token = ''at-2'', access_expiresAt = 1700259200000,
            refresh_token = ''rt-2'', refresh_expiresAt = 1700604800000 \<rparr>,
      Inl (ApiError 403 ''Refresh token not found or revoked.''))"
proof -
  note ex = ex_ambient_def ex_ambient_later_def ex_row_def ex_other_def
  have v: "verifyToken ex_ambient ''rt-1'' = Some \<lparr> sub = ''u1'', payload_type = ''refresh'' \<rparr>"
    by (simp add: ex)
  have k: "payload_type \<lparr> sub = ''u1'', payload_type = ''refresh'' \<rparr> = ''refresh''" by simp
  have f: "filter (liveRefresh ''rt-1'') [ex_other, ex_row] = [ex_row]"
    by (simp add: ex liveRefresh_def)
  have e: "\<not> expiredAt (now ex_ambient) ex_row" by (simp add: ex expiredAt_def)
  have u: "useCount ex_row = 0" by (simp add: ex)
  have g: "generateToken ex_ambient (sub \<lparr> sub = ''u1'', payload_type = ''refresh'' \<rparr>) refresh
             (expiryRefreshToken ex_ambient) \<noteq> ''rt-1''"
    by (simp add: ex)
  from refreshAuth_sequential_one_success [OF v k f e u g, of ex_ambient_later None None] f e u
  show ?thesis by (simp add: ex TokenNotFound_def)
qed

section \<open>The revocation columns after a rotation\<close>

text \<open>
  C6 fails on the rotation write. The store holds one fresh row, whose \<open>revokedAt\<close> and
  \<open>revokedReason\<close> are both null. The rotation succeeds and leaves that row with the
  reason "Token rotated" and no \<open>revokedAt\<close>: the write of lines 186 to 194 sets
  \<open>isRevoked\<close> and \<open>revokedReason\<close> only. Every other write on the table sets the
  three columns together (\<open>revokeData\<close>), as the lemmas on \<open>revocationPaired\<close> above show.
\<close>

theorem refreshAuth_rotation_unpairs_revocation:
  "list_all revocationPaired [ex_row] \<and>
   refreshAuth ex_ambient [ex_row] ''rt-1'' None =
     (Inr \<lparr> access_token = ''at-2'', access_expiresAt = 1700259200000,
            refresh_token = ''rt-2'', refresh_expiresAt = 1700604800000 \<rparr>,
      [ex_row \<lparr> lastUsedAt := Some 1700000000000, useCount := 1, isRevoked := True,
                revokedReason := Some ''Token rotated'' \<rparr>,
       ex_row \<lparr> tokenId := ''id-2'', token := ''rt-2'', replacesTokenId := Some ''id-1'',
                expiresAt := Some 1700604800000, createdAt := 1700000000000 \<rparr>]) \<and>
   revokedReason (ex_row \<lparr> lastUsedAt := Some 1700000000000, useCount := 1, isRevoked := True,
                revokedReason := Some ''Token rotated'' \<rparr>) = Some ''Token rotated'' \<and>
   revokedAt (ex_row \<lparr> lastUsedAt := Some 1700000000000, useCount := 1, isRevoked := True,
                revokedReason := Some ''Token rotated'' \<rparr>) = None \<and>
   \<not> list_all revocationPaired (snd (refreshAuth ex_ambient [ex_row] ''rt-1'' None))"
  by (simp add: refreshAuth_def refreshAuth_check_def refreshAuth_rotate_def saveToken_def
        updateById_def updateMany_def rotatedData_def nullish_def
        liveRefresh_def expiredAt_def revocationPaired_def ex_ambient_def ex_row_def
        Let_def)

section \<open>Cleanup\<close>

text \<open>
  C7, as stated, fails in its last part. The family of the reused token has an older row
  whose \<open>expiresAt\<close> has passed; the reuse event revokes both rows at the clock; a sweep
  at that same instant deletes the older row, and a sweep six days later, with the
  retention window of 30 days not elapsed, deletes both.
\<close>

theorem cleanupExpiredTokens_after_reuse_counterexample:
  "refreshAuth ex_ambient [ex_sibling, ex_reused] ''rt-1'' None =
     (Inl ReuseDetected,
      [ex_sibling \<lparr> isRevoked := True, revokedAt := Some 1700000000000,
                    revokedReason := Some ''Token family revoked due to reuse'' \<rparr>,
       ex_reused_revoked]) \<and>
   cleanupExpiredTokens ex_ambient
     (snd (refreshAuth ex_ambient [ex_sibling, ex_reused] ''rt-1'' None)) =
     (1, [ex_reused_revoked]) \<and>
   cleanupExpiredTokens ex_ambient_sweep
     (snd (refreshAuth ex_ambient [ex_sibling, ex_reused] ''rt-1'' None)) = (2, []) \<and>
   addDays ex_ambient_sweep (- 30) (now ex_ambient_sweep) < now ex_ambient"
  by (simp add: refreshAuth_def refreshAuth_check_def updateMany_def revokeData_def
        cleanupExpiredTokens_def purged_def liveRefresh_def expiredAt_def
        ex_ambient_def ex_ambient_sweep_def ex_row_def ex_reused_def ex_sibling_def
        ex_reused_revoked_def)

text \<open>
  C7, as the code has it. The sweep deletes exactly the rows whose \<open>expiresAt\<close> is before
  the clock, or that are revoked with a \<open>revokedAt\<close> before the instant 30 calendar days
  before the clock (\<open>addDays\<close>, in the process's time zone), keeps the other rows in
  their order, and returns the number of rows deleted. In particular, for a row revoked
  by a reuse event (a row of the family of the reused token) and a sweep for which that
  instant is not after the event, so that the retention window has not elapsed, the row
  is kept exactly when its \<open>expiresAt\<close> has not passed at the time of the sweep.
\<close>

theorem cleanupExpiredTokens_sweeps:
  "cleanupExpiredTokens w st =
     (length (filter (\<lambda>r. (\<exists>e. expiresAt r = Some e \<and> e < now w) \<or>
                           (isRevoked r \<and>
                            (\<exists>v. revokedAt r = Some v \<and> v < addDays w (- 30) (now w)))) st),
      filter (\<lambda>r. \<not> ((\<exists>e. expiresAt r = Some e \<and> e < now w) \<or>
                       (isRevoked r \<and>
                        (\<exists>v. revokedAt r = Some v \<and> v < addDays w (- 30) (now w))))) st) \<and>
   (verifyToken wr t = Some p \<and> payload_type p = ''refresh'' \<and>
    find (liveRefresh t) st0 = Some doc \<and> \<not> expiredAt (now wr) doc \<and> useCount doc > 0 \<and>
    tokenFamily doc = Some fam \<and> fam \<noteq> [] \<and>
    r \<in> set (snd (refreshAuth wr st0 t opts)) \<and> tokenFamily r = Some fam \<and>
    addDays ws (- 30) (now ws) \<le> now wr \<longrightarrow>
      (r \<in> set (snd (cleanupExpiredTokens ws (snd (refreshAuth wr st0 t opts))))) =
        (\<not> expiredAt (now ws) r))"
proof (intro conjI impI)
  show "cleanupExpiredTokens w st =
     (length (filter (\<lambda>r. (\<exists>e. expiresAt r = Some e \<and> e < now w) \<or>
                           (isRevoked r \<and>
                            (\<exists>v. revokedAt r = Some v \<and> v < addDays w (- 30) (now w)))) st),
      filter (\<lambda>r. \<not> ((\<exists>e. expiresAt r = Some e \<and> e < now w) \<or>
                       (isRevoked r \<and>
                        (\<exists>v. revokedAt r = Some v \<and> v < addDays w (- 30) (now w))))) st)"
    by (simp only: cleanupExpiredTokens_def purged_iff Let_def)
next
  assume h: "verifyToken wr t = Some p \<and> payload_type p = ''refresh'' \<and>
    find (liveRefresh t) st0 = Some doc \<and> \<not> expiredAt (now wr) doc \<and> useCount doc > 0 \<and>
    tokenFamily doc = Some fam \<and> fam \<noteq> [] \<and>
    r \<in> set (snd (refreshAuth wr st0 t opts)) \<and> tokenFamily r = Some fam \<and>
    addDays ws (- 30) (now ws) \<le> now wr"
  then have h1: "verifyToken wr t = Some p" and h2: "payload_type p = ''refresh''"
    and h3: "find (liveRefresh t) st0 = Some doc" and h4: "\<not> expiredAt (now wr) doc"
    and h5: "useCount doc > 0" and h6: "tokenFamily doc = Some fam" and h7: "fam \<noteq> []"
    by simp_all
  have st1: "snd (refreshAuth wr st0 t opts) =
           updateMany (\<lambda>r. tokenFamily r = Some fam)
             (revokeData (now wr) ''Token family revoked due to reuse'') st0"
    by (rule refreshAuth_reuse_store [OF h1 h2 h3 h4 h5 h6 h7])
  from h have mem: "r \<in> set (snd (refreshAuth wr st0 t opts))" and fam: "tokenFamily r = Some fam"
    and win: "addDays ws (- 30) (now ws) \<le> now wr" by simp_all
  from updateMany_family_member [OF mem [unfolded st1] fam]
  have rv: "revokedAt r = Some (now wr)" by simp
  have "purged (now ws) (addDays ws (- 30) (now ws)) r = expiredAt (now ws) r"
    using rv win by (simp add: purged_def expiredAt_def)
  with mem show "(r \<in> set (snd (cleanupExpiredTokens ws (snd (refreshAuth wr st0 t opts))))) =
        (\<not> expiredAt (now ws) r)"
    by (simp add: cleanupExpiredTokens_def Let_def)
qed

theorem cleanupExpiredTokens_sweeps_witness:
  "find (liveRefresh ''rt-1'') [ex_sibling, ex_other, ex_reused] = Some ex_reused \<and>
   useCount ex_reused > 0 \<and> tokenFamily ex_reused = Some ''fam-1'' \<and>
   addDays ex_ambient_later (- 30) (now ex_ambient_later) \<le> now ex_ambient \<and>
   \<not> expiredAt (now ex_ambient_later) ex_reused_revoked \<and>
   ex_reused_revoked
     \<in> set (snd (cleanupExpiredTokens ex_ambient_later
                (snd (refreshAuth ex_ambient [ex_sibling, ex_other, ex_reused] ''rt-1'' None)))) \<and>
   cleanupExpiredTokens ex_ambient [ex_expired, ex_other] = (1, [ex_other]) \<and>
   addDays ex_ambient_newyork_sweep (- 30) (now ex_ambient_newyork_sweep) = 1697886000000 \<and>
   cleanupExpiredTokens ex_ambient_newyork_sweep [ex_logged_out] = (0, [ex_logged_out])"
proof -
  note ex = ex_ambient_def ex_ambient_later_def ex_row_def ex_reused_def ex_sibling_def
    ex_other_def ex_expired_def ex_reused_revoked_def
  have v: "verifyToken ex_ambient ''rt-1'' = Some \<lparr> sub = ''u1'', payload_type = ''refresh'' \<rparr>"
    by (simp add: ex)
  have f: "find (liveRefresh ''rt-1'') [ex_sibling, ex_other, ex_reused] = Some ex_reused"
    by (simp add: ex liveRefresh_def)
  have e: "\<not> expiredAt (now ex_ambient) ex_reused" by (simp add: ex expiredAt_def)
  have u: "useCount ex_reused > 0" by (simp add: ex)
  have n: "tokenFamily ex_reused = Some ''fam-1''" by (simp add: ex)
  have m: "ex_reused_revoked
             \<in> set (snd (refreshAuth ex_ambient [ex_sibling, ex_other, ex_reused] ''rt-1'' None))"
    by (simp add: ex refreshAuth_def refreshAuth_check_def updateMany_def revokeData_def
          liveRefresh_def expiredAt_def)
  have fr: "tokenFamily ex_reused_revoked = Some ''fam-1''"
    by (simp add: ex)
  have win: "addDays ex_ambient_later (- 30) (now ex_ambient_later) \<le> now ex_ambient" by (simp add: ex)
  have x: "\<not> expiredAt (now ex_ambient_later) ex_reused_revoked"
    by (simp add: ex expiredAt_def)
  have c: "cleanupExpiredTokens ex_ambient [ex_expired, ex_other] = (1, [ex_other])"
    by (simp add: ex cleanupExpiredTokens_def purged_def)
  have ny: "addDays ex_ambient_newyork_sweep (- 30) (now ex_ambient_newyork_sweep) = 1697886000000"
    by (simp add: ex_ambient_newyork_sweep_def ex_ambient_newyork_def ex_ambient_def
          addDays_newyork_def Let_def)
  have c2: "cleanupExpiredTokens ex_ambient_newyork_sweep [ex_logged_out] = (0, [ex_logged_out])"
    by (simp add: cleanupExpiredTokens_def purged_def ex_logged_out_def ex_row_def
          ex_ambient_newyork_sweep_def ex_ambient_newyork_def ex_ambient_def
          addDays_newyork_def Let_def)
  from cleanupExpiredTokens_sweeps [of ex_ambient "[ex_expired, ex_other]" ex_ambient "''rt-1''"
        "\<lparr> sub = ''u1'', payload_type = ''refresh'' \<rparr>" "[ex_sibling, ex_other, ex_reused]"
        ex_reused "''fam-1''" ex_reused_revoked None ex_ambient_later]
      v f e u n m fr win x c ny c2
  show ?thesis by simp
qed

section \<open>Listing sessions\<close>

text \<open>
  C8 fails on \<^verbatim>\<open>listUserSessions\<close> of \<^verbatim>\<open>token.service.ts\<close>. With no filter and the
  default page, on a store of one refresh row, the call returns that whole row as the
  one element of \<open>data\<close>, and the row holds the raw token value "rt-1". The other
  \<^verbatim>\<open>listUserSessions\<close> of the repository returns summaries that do not depend on the
  token value (\<open>selectSummary_token\<close>).
\<close>

theorem listUserSessions_returns_token:
  "listUserSessions ex_engine [ex_row]
     \<lparr> po_limit = None, po_page = None, po_maxLimit = None, po_sort = None \<rparr>
     \<lparr> f_email = None, f_type = None \<rparr> =
     Some \<lparr> data = [ex_row],
            pagination = \<lparr> pg_total = 1, pg_page = 1, pg_limit = 10, pg_totalPages = 1,
                            pg_hasNextPage = False, pg_hasPrevPage = False \<rparr> \<rparr> \<and>
   token ex_row = ''rt-1''"
  by (simp add: listUserSessions_def paginate_def ex_row_def ex_engine_def Let_def)


end
